theory Spec2Isabelle
  imports Main
begin

section \<open>JavaScript values\<close>

text \<open>
  The values that flow through the modal controller and the page shell: the state
  variable \<open>type\<close> of \<open>useModal\<close> starts as \<open>null\<close>, the \<open>source\<close> that
  \<open>qs.parse\<close> yields is \<open>undefined\<close> (parameter absent), a string (parameter given
  once) or an array of strings (parameter given several times), and the props
  \<open>title\<close> and \<open>description\<close> are strings or \<open>undefined\<close>.

  Strict equality \<open>===\<close> against a string, as used in \<open>item.type === type\<close> and
  \<open>query === source\<close>, is equality of the two values: a string equals only the same
  string, never \<open>null\<close>, \<open>undefined\<close> or an array.

  \<open>setType\<close> is React's state setter; it is modelled for the values above, not for
  function arguments (which React treats as updaters).
\<close>

datatype jsval = JUndefined | JNull | JStr string | JArr "string list"

text \<open>Truthiness of a value in \<open>if (info?.title)\<close>.\<close>

fun truthy :: "jsval \<Rightarrow> bool" where
  "truthy JUndefined = False"
| "truthy JNull = False"
| "truthy (JStr s) = (s \<noteq> [])"
| "truthy (JArr xs) = True"

section \<open>The static content table (modal.js, lines 5-19)\<close>

definition EMAIL_CONFIRMATION :: string where
  "EMAIL_CONFIRMATION = ''email-confirmation''"

definition CONFIRMATION_SUCCESS :: string where
  "CONFIRMATION_SUCCESS = ''confirmation-success''"

record modal_item =
  type :: string
  title :: string
  description :: string

definition MODAL_DATA :: "modal_item list" where
  "MODAL_DATA =
    [\<lparr>type = EMAIL_CONFIRMATION,
      title = ''Success!'',
      description = ''Now check your email to confirm your subscription''\<rparr>,
     \<lparr>type = CONFIRMATION_SUCCESS,
      title = ''Done!'',
      description = ''Thanks for subscribing!''\<rparr>]"

section \<open>The modal controller: \<open>useModal\<close> (modal.js, lines 21-52)\<close>

text \<open>
  The state variable \<open>info\<close> holds the object literal \<open>{}\<close> it is initialised with,
  \<open>undefined\<close>, or one of the items of \<open>MODAL_DATA\<close> (the very object of the table, so
  that two lookups of the same key give the identical value).
\<close>

datatype info_val = InfoEmpty | InfoUndefined | InfoItem modal_item

text \<open>\<open>info?.title\<close> and \<open>info?.description\<close>: \<open>undefined\<close> unless \<open>info\<close> is an item.\<close>

fun info_title :: "info_val \<Rightarrow> jsval" where
  "info_title (InfoItem i) = JStr (title i)"
| "info_title _ = JUndefined"

fun info_description :: "info_val \<Rightarrow> jsval" where
  "info_description (InfoItem i) = JStr (description i)"
| "info_description _ = JUndefined"

text \<open>
  \<open>setInfo(...info)\<close> spreads the filtered array into the argument list of the setter,
  which takes its first argument: \<open>undefined\<close> for the empty array, else the first
  match.
\<close>

fun setInfo_spread :: "modal_item list \<Rightarrow> info_val" where
  "setInfo_spread [] = InfoUndefined"
| "setInfo_spread (i # _) = InfoItem i"

text \<open>
  The state of one \<open>useModal\<close> instance. \<open>isShow\<close> is the visibility kept by
  \<open>usePortal\<close> (\<open>defaultShow: false\<close>; \<open>show\<close> sets it, \<open>hide\<close> clears it, and the
  \<open>Portal\<close> renders its children only while it is set). \<open>st_type\<close> and \<open>st_info\<close> are
  the two \<open>useState\<close> cells. \<open>deps_type\<close> and \<open>deps_info\<close> are the dependency values
  React recorded when the effects on \<open>[type]\<close> and \<open>[info]\<close> last ran (\<open>None\<close> before the
  first commit): an effect runs after a render when its dependency differs from the
  recorded one.

  \<open>usePortal\<close> comes from the package react-cool-portal, which is not part of this
  repository; only \<open>isShow\<close>, \<open>show\<close>, \<open>hide\<close> and \<open>Portal\<close> are modelled, as
  described above. The listeners the package installs itself (a click outside the
  portal, the Escape key) are not events of this model.
\<close>

record modal_hook =
  isShow :: bool
  st_type :: jsval
  st_info :: info_val
  deps_type :: "jsval option"
  deps_info :: "info_val option"

definition useModal_init :: modal_hook where
  "useModal_init =
    \<lparr>isShow = False, st_type = JNull, st_info = InfoEmpty,
     deps_type = None, deps_info = None\<rparr>"

text \<open>
  One committed render of the hook. Both effects see the \<open>type\<close> and \<open>info\<close> of this
  render; the state updates they request (\<open>setInfo\<close>, \<open>show\<close>) take effect for the next
  render.
\<close>

definition useModal_pass :: "modal_hook \<Rightarrow> modal_hook" where
  "useModal_pass s =
    (let ty = st_type s;
         inf = st_info s;
         inf' = (if deps_type s \<noteq> Some ty
                 then setInfo_spread (filter (\<lambda>item. JStr (type item) = ty) MODAL_DATA)
                 else inf);
         sh' = (if deps_info s \<noteq> Some inf \<and> truthy (info_title inf)
                then True else isShow s)
     in \<lparr>isShow = sh', st_type = ty, st_info = inf',
         deps_type = Some ty, deps_info = Some inf\<rparr>)"

text \<open>
  React renders again as long as an effect changed a state cell, and stops at the first
  render whose effects change nothing.
\<close>

definition same_state :: "modal_hook \<Rightarrow> modal_hook \<Rightarrow> bool" where
  "same_state a b \<longleftrightarrow>
     isShow a = isShow b \<and> st_type a = st_type b \<and> st_info a = st_info b"

function settle :: "modal_hook \<Rightarrow> modal_hook" where
  "settle s =
     (let s' = useModal_pass s in if same_state s' s then s' else settle s')"
  by pat_completeness auto
termination
  by (relation "measure (\<lambda>s. (if deps_type s \<noteq> Some (st_type s) then 2 else 0)
                            + (if deps_info s \<noteq> Some (st_info s) then 1 else (0::nat)))")
     (auto simp: useModal_pass_def same_state_def Let_def split: if_splits)

text \<open>Mounting the hook: the first render and the renders its effects cause.\<close>

definition mount :: modal_hook where
  "mount = settle useModal_init"

text \<open>
  The operations the hook returns. Each is a state update from an event handler or from
  the host, followed by the renders it causes. \<open>show\<close> and \<open>hide\<close> are those of
  \<open>usePortal\<close>.
\<close>

definition setType :: "jsval \<Rightarrow> modal_hook \<Rightarrow> modal_hook" where
  "setType k s = settle (s\<lparr>st_type := k\<rparr>)"

definition show_portal :: "modal_hook \<Rightarrow> modal_hook" where
  "show_portal s = settle (s\<lparr>isShow := True\<rparr>)"

definition hide_portal :: "modal_hook \<Rightarrow> modal_hook" where
  "hide_portal s = settle (s\<lparr>isShow := False\<rparr>)"

text \<open>
  What \<open>Modal\<close> puts on the screen: nothing while the portal is hidden, else
  \<open>ModalInfo\<close> with the props \<open>title = info?.title\<close> and
  \<open>description = info?.description\<close>.
\<close>

definition Modal :: "modal_hook \<Rightarrow> (jsval \<times> jsval) option" where
  "Modal s = (if isShow s then Some (info_title (st_info s), info_description (st_info s))
              else None)"

section \<open>The dialog: \<open>ModalInfo\<close> (modal.js, lines 54-88)\<close>

text \<open>
  The elements of the rendered dialog, in document order: the backdrop
  \<open>div#modal\<close>, the dialog container, the bar with the close button and the
  \<open>span\<close> holding its cross, the content container with the heading, the paragraph and
  the OK button.
\<close>

datatype element =
  Backdrop | Container | Bar | CloseButton | CloseSpan
  | ContentContainer | Header | Content | OkButton

text \<open>The parent of an element in the JSX tree; the backdrop is the root.\<close>

fun parent :: "element \<Rightarrow> element option" where
  "parent Backdrop = None"
| "parent Container = Some Backdrop"
| "parent Bar = Some Container"
| "parent CloseButton = Some Bar"
| "parent CloseSpan = Some CloseButton"
| "parent ContentContainer = Some Container"
| "parent Header = Some ContentContainer"
| "parent Content = Some ContentContainer"
| "parent OkButton = Some ContentContainer"

text \<open>Only the backdrop carries an \<open>id\<close> attribute; \<open>e.target.id\<close> is empty elsewhere.\<close>

fun element_id :: "element \<Rightarrow> string" where
  "element_id Backdrop = ''modal''"
| "element_id _ = []"

text \<open>
  The path a click event travels: from its target up to the root. The tree has depth
  five, so four steps along \<open>parent\<close> reach the root from every element.
\<close>

fun path_from :: "nat \<Rightarrow> element \<Rightarrow> element list" where
  "path_from 0 e = [e]"
| "path_from (Suc n) e =
     (case parent e of None \<Rightarrow> [e] | Some p \<Rightarrow> e # path_from n p)"

definition bubble_path :: "element \<Rightarrow> element list" where
  "bubble_path e = path_from 4 e"

text \<open>An element is inside the dialog container when the container is on its path.\<close>

definition inside_container :: "element \<Rightarrow> bool" where
  "inside_container e \<longleftrightarrow> Container \<in> set (bubble_path e)"

text \<open>
  The \<open>onClick\<close> handlers. \<open>handleClickBackdrop\<close> hides only when the target of the
  event is the element with id \<open>modal\<close>; the two buttons have \<open>hide\<close> itself as their
  handler. The handler's state update is applied where the handler runs; the render it
  causes follows the event.
\<close>

definition handleClickBackdrop :: "element \<Rightarrow> modal_hook \<Rightarrow> modal_hook" where
  "handleClickBackdrop target s =
     (if element_id target = ''modal'' then s\<lparr>isShow := False\<rparr> else s)"

fun onClick :: "element \<Rightarrow> element \<Rightarrow> modal_hook \<Rightarrow> modal_hook" where
  "onClick Backdrop target s = handleClickBackdrop target s"
| "onClick CloseButton target s = s\<lparr>isShow := False\<rparr>"
| "onClick OkButton target s = s\<lparr>isShow := False\<rparr>"
| "onClick _ target s = s"

text \<open>
  A click on an element of the dialog: the handlers on the path run from the target
  outwards, then React renders. While the portal is hidden the dialog is not in the
  document and cannot be clicked.
\<close>

definition click :: "element \<Rightarrow> modal_hook \<Rightarrow> modal_hook" where
  "click target s =
     (if isShow s
      then settle (fold (\<lambda>e. onClick e target) (bubble_path target) s)
      else s)"

section \<open>Histories of operations\<close>

datatype op = SetType jsval | Show | Hide | Click element

fun apply_op :: "op \<Rightarrow> modal_hook \<Rightarrow> modal_hook" where
  "apply_op (SetType k) s = setType k s"
| "apply_op Show s = show_portal s"
| "apply_op Hide s = hide_portal s"
| "apply_op (Click e) s = click e s"

text \<open>The state of a mounted controller after a sequence of operations.\<close>

definition run :: "op list \<Rightarrow> modal_hook" where
  "run ops = foldl (\<lambda>s a. apply_op a s) mount ops"

text \<open>A key matches when some item of the table has it as its \<open>type\<close>.\<close>

definition matches :: "jsval \<Rightarrow> bool" where
  "matches k \<longleftrightarrow> (\<exists>item \<in> set MODAL_DATA. JStr (type item) = k)"

section \<open>The page shell: \<open>Layout\<close> (layout.js, lines 6-35)\<close>

text \<open>
  A location as the router hands it to \<open>Layout\<close>. The query string \<open>location.search\<close>
  is kept as the list of its decoded \<open>key=value\<close> pairs in order; the empty list is
  the URL without a query string. Paths are relative to the site's path prefix.
\<close>

record location =
  pathname :: string
  search :: "(string \<times> string) list"

text \<open>
  \<open>const { source } = qs.parse(location.search, { ignoreQueryPrefix: true })\<close>:
  \<open>undefined\<close> when the parameter is absent, its value when it occurs once, and the
  array of its values when it is repeated. \<open>qs\<close> is not part of this repository; its
  bracket notation for keys (\<open>source[]=x\<close>) and its limit of 1000 parameters are
  not modelled, and every property of the shell below is stated for the parsed value.
\<close>

definition qs_parse_source :: "(string \<times> string) list \<Rightarrow> jsval" where
  "qs_parse_source q =
     (case map snd (filter (\<lambda>kv. fst kv = ''source'') q) of
        [] \<Rightarrow> JUndefined
      | [v] \<Rightarrow> JStr v
      | vs \<Rightarrow> JArr vs)"

definition QUERIES :: "string list" where
  "QUERIES = [EMAIL_CONFIRMATION, CONFIRMATION_SUCCESS]"

text \<open>
  The calls the effect of \<open>Layout\<close> makes, in order. \<open>navigate\<close> is Gatsby's; its
  second argument is the options object, absent in \<open>navigate("/")\<close>.
\<close>

record nav_options =
  replace :: bool

datatype call = CallSetType jsval | CallNavigate string "nav_options option"

text \<open>
  \<open>useModal\<close> is a hook of \<open>Layout\<close>, so its two effects and the effect of \<open>Layout\<close>
  belong to one component and run, in this order, after the same render.
  \<open>deps_source\<close> is the \<open>source\<close> recorded when the effect on \<open>[source, setType]\<close>
  last ran; \<open>setType\<close> is a state setter and never changes.
\<close>

record layout =
  hook :: modal_hook
  deps_source :: "jsval option"
  calls :: "call list"

definition Layout_init :: layout where
  "Layout_init = \<lparr>hook = useModal_init, deps_source = None, calls = []\<rparr>"

text \<open>
  Whether the dependency \<open>source\<close> changed since the effect last ran. \<open>qs.parse\<close>
  builds a new array on every render, which is never identical to the recorded one.
\<close>

definition source_changed :: "jsval option \<Rightarrow> jsval \<Rightarrow> bool" where
  "source_changed prev src =
     (case src of JArr _ \<Rightarrow> True | _ \<Rightarrow> prev \<noteq> Some src)"

text \<open>
  One committed render of \<open>Layout\<close> at a location. The effects of \<open>useModal\<close> run
  first; then, if \<open>source\<close> changed and \<open>QUERIES.some(query => query === source)\<close>,
  the effect calls \<open>setType(source)\<close> and \<open>navigate("/")\<close>.
\<close>

definition Layout_pass :: "location \<Rightarrow> layout \<Rightarrow> layout" where
  "Layout_pass loc L =
     (let source = qs_parse_source (search loc);
          h = useModal_pass (hook L);
          fire = (source_changed (deps_source L) source
                  \<and> list_ex (\<lambda>query. JStr query = source) QUERIES)
      in \<lparr>hook = (if fire then h\<lparr>st_type := source\<rparr> else h),
          deps_source = Some source,
          calls = calls L @ (if fire then [CallSetType source, CallNavigate ''/'' None]
                             else [])\<rparr>)"

text \<open>\<open>n\<close> renders in a row at the same location.\<close>

definition Layout_renders :: "nat \<Rightarrow> location \<Rightarrow> layout \<Rightarrow> layout" where
  "Layout_renders n loc L = (Layout_pass loc ^^ n) L"

subsection \<open>The browser history\<close>

text \<open>
  The session history as a stack of locations, the current entry first. Gatsby's
  \<open>navigate(to, options)\<close> pushes the target as a new entry, unless
  \<open>options.replace\<close> is true: then it replaces the current entry. The only target in
  this repository is the path \<open>"/"\<close>, which has no query string.
\<close>

definition navigate :: "string \<Rightarrow> nav_options option \<Rightarrow> location list \<Rightarrow> location list" where
  "navigate to opts hist =
     (let target = \<lparr>pathname = to, search = []\<rparr>
      in if (case opts of None \<Rightarrow> False | Some os \<Rightarrow> replace os)
         then target # tl hist
         else target # hist)"

fun perform :: "call \<Rightarrow> location list \<Rightarrow> location list" where
  "perform (CallNavigate to opts) hist = navigate to opts hist"
| "perform (CallSetType k) hist = hist"

text \<open>The history once the navigations requested by the shell have completed.\<close>

definition history_after :: "layout \<Rightarrow> location list \<Rightarrow> location list" where
  "history_after L hist = fold perform (calls L) hist"

section \<open>Settled states\<close>

text \<open>
  A state in which no effect is pending: both recorded dependencies are current, and
  \<open>info\<close> is what the effect on \<open>[type]\<close> computes from \<open>type\<close>.
\<close>

definition settled :: "modal_hook \<Rightarrow> bool" where
  "settled s \<longleftrightarrow>
     deps_type s = Some (st_type s) \<and> deps_info s = Some (st_info s)
     \<and> st_info s = setInfo_spread (filter (\<lambda>item. JStr (type item) = st_type s) MODAL_DATA)"

declare settle.simps [simp del]

subsection \<open>The render loop ends after two renders\<close>

lemma useModal_pass_thrice:
  "useModal_pass (useModal_pass (useModal_pass s)) = useModal_pass (useModal_pass s)"
  by (simp add: useModal_pass_def Let_def)

lemma useModal_pass_same:
  "same_state (useModal_pass s) s \<Longrightarrow> useModal_pass (useModal_pass s) = useModal_pass s"
  by (simp add: useModal_pass_def Let_def same_state_def)

lemma settle_unfold:
  "settle s =
     (if same_state (useModal_pass s) s then useModal_pass s else settle (useModal_pass s))"
  using settle.simps [of s] by (simp add: Let_def)

lemma settle_fixpoint: "useModal_pass t = t \<Longrightarrow> settle t = t"
  using settle_unfold [of t] by (simp add: same_state_def)

lemma settle_eq: "settle s = useModal_pass (useModal_pass s)"
proof (cases "same_state (useModal_pass s) s")
  case True
  then have "settle s = useModal_pass s"
    using settle_unfold [of s] by simp
  with True show ?thesis by (simp add: useModal_pass_same)
next
  case False
  then have "settle s = settle (useModal_pass s)"
    using settle_unfold [of s] by simp
  also have "\<dots> = useModal_pass (useModal_pass s)"
  proof (cases "same_state (useModal_pass (useModal_pass s)) (useModal_pass s)")
    case True
    then show ?thesis using settle_unfold [of "useModal_pass s"] by simp
  next
    case False
    then have "settle (useModal_pass s) = settle (useModal_pass (useModal_pass s))"
      using settle_unfold [of "useModal_pass s"] by simp
    then show ?thesis by (simp add: settle_fixpoint useModal_pass_thrice)
  qed
  finally show ?thesis .
qed

lemmas hook_defs = useModal_pass_def useModal_init_def mount_def setType_def show_portal_def
  hide_portal_def settle_eq Let_def MODAL_DATA_def EMAIL_CONFIRMATION_def
  CONFIRMATION_SUCCESS_def

subsection \<open>Every operation leaves the controller settled\<close>

lemma settled_pass: "settled s \<Longrightarrow> useModal_pass s = s"
  by (simp add: settled_def useModal_pass_def Let_def)

lemma settled_settle: "settled s \<Longrightarrow> settle s = s"
  by (simp add: settle_eq settled_pass)

lemma settled_mount: "settled mount"
  by (simp add: mount_def settle_eq settled_def useModal_pass_def useModal_init_def Let_def)

lemma settled_setType: "settled s \<Longrightarrow> settled (setType k s)"
  by (simp add: setType_def settle_eq settled_def useModal_pass_def Let_def)

lemma settled_show: "settled s \<Longrightarrow> settled (show_portal s)"
  by (simp add: show_portal_def settle_eq settled_def useModal_pass_def Let_def)

lemma settled_hide: "settled s \<Longrightarrow> settled (hide_portal s)"
  by (simp add: hide_portal_def settle_eq settled_def useModal_pass_def Let_def)

lemma fold_onClick_cases:
  "fold (\<lambda>e. onClick e target) (bubble_path target) s = s
   \<or> fold (\<lambda>e. onClick e target) (bubble_path target) s = s\<lparr>isShow := False\<rparr>"
  by (cases target) (simp_all add: bubble_path_def handleClickBackdrop_def eval_nat_numeral)

lemma settled_click: "settled s \<Longrightarrow> settled (click e s)"
  using fold_onClick_cases [of e s]
  by (auto simp: click_def settle_eq settled_def useModal_pass_def Let_def)

lemma settled_apply_op: "settled s \<Longrightarrow> settled (apply_op a s)"
  by (cases a) (simp_all add: settled_setType settled_show settled_hide settled_click)

lemma run_Nil: "run [] = mount"
  by (simp add: run_def)

lemma run_snoc: "run (ops @ [a]) = apply_op a (run ops)"
  by (simp add: run_def)

lemma settled_run: "settled (run ops)"
  by (induction ops rule: rev_induct) (simp_all add: run_snoc run_Nil settled_mount settled_apply_op)

text \<open>What \<open>setType\<close> does to a settled controller, in one step.\<close>

lemma setType_settled:
  assumes "settled s"
  shows "setType k s =
     (let inf = setInfo_spread (filter (\<lambda>item. JStr (type item) = k) MODAL_DATA)
      in \<lparr>isShow = (isShow s \<or> (inf \<noteq> st_info s \<and> truthy (info_title inf))),
          st_type = k, st_info = inf, deps_type = Some k, deps_info = Some inf\<rparr>)"
  using assms
  by (auto simp: setType_def settle_eq settled_def useModal_pass_def Let_def)

lemma lookup_no_match:
  "k \<noteq> JStr EMAIL_CONFIRMATION \<Longrightarrow> k \<noteq> JStr CONFIRMATION_SUCCESS \<Longrightarrow>
   filter (\<lambda>item. JStr (type item) = k) MODAL_DATA = []"
  by (auto simp: MODAL_DATA_def)

lemma matches_iff:
  "matches k \<longleftrightarrow> k = JStr EMAIL_CONFIRMATION \<or> k = JStr CONFIRMATION_SUCCESS"
  by (auto simp: matches_def MODAL_DATA_def)

section \<open>Properties of the modal controller\<close>

lemma lookup_EMAIL:
  "filter (\<lambda>item. JStr (type item) = JStr EMAIL_CONFIRMATION) MODAL_DATA
     = [\<lparr>type = EMAIL_CONFIRMATION, title = ''Success!'',
         description = ''Now check your email to confirm your subscription''\<rparr>]"
  by (simp add: MODAL_DATA_def EMAIL_CONFIRMATION_def CONFIRMATION_SUCCESS_def)

lemma lookup_CONFIRMATION:
  "filter (\<lambda>item. JStr (type item) = JStr CONFIRMATION_SUCCESS) MODAL_DATA
     = [\<lparr>type = CONFIRMATION_SUCCESS, title = ''Done!'',
         description = ''Thanks for subscribing!''\<rparr>]"
  by (simp add: MODAL_DATA_def EMAIL_CONFIRMATION_def CONFIRMATION_SUCCESS_def)

text \<open>In a settled state the item shown carries the recorded key.\<close>

lemma settled_item_type:
  assumes "settled s" and "st_info s = InfoItem i"
  shows "st_type s = JStr (type i)"
proof -
  from assms have "setInfo_spread (filter (\<lambda>item. JStr (type item) = st_type s) MODAL_DATA)
      = InfoItem i"
    by (simp add: settled_def)
  then show ?thesis
    by (auto simp: MODAL_DATA_def split: if_splits)
qed

lemma setType_shows:
  assumes "settled s"
    and "filter (\<lambda>item. JStr (type item) = JStr k) MODAL_DATA = [i]"
    and "type i = k" and "title i \<noteq> []"
    and "isShow s \<or> st_type s \<noteq> JStr k"
  shows "isShow (setType (JStr k) s)
       \<and> Modal (setType (JStr k) s) = Some (JStr (title i), JStr (description i))"
proof -
  have "isShow s \<or> InfoItem i \<noteq> st_info s"
    using assms(1,3,5) settled_item_type [of s i] by auto
  then show ?thesis
    using assms(2,4) by (auto simp: setType_settled [OF assms(1)] Let_def Modal_def)
qed

text \<open>
  Claim C1, as stated, fails on a controller that \<open>hide()\<close> has dismissed while it
  still records the key: \<open>type\<close> does not change, neither effect runs, and the modal
  stays hidden with nothing rendered.
\<close>

theorem setType_valid_key_after_hide_counterexample:
  "\<not> isShow (setType (JStr EMAIL_CONFIRMATION) (run [SetType (JStr EMAIL_CONFIRMATION), Hide]))
   \<and> Modal (setType (JStr EMAIL_CONFIRMATION) (run [SetType (JStr EMAIL_CONFIRMATION), Hide]))
       = None"
  by (simp add: run_def hook_defs Modal_def)

text \<open>
  Claim C1, amended. In every state the operations can reach in which the modal is
  visible or the recorded key differs from the key given, \<open>setType(EMAIL_CONFIRMATION)\<close>
  yields a visible modal with title "Success!" and description "Now check your email to
  confirm your subscription", and \<open>setType(CONFIRMATION_SUCCESS)\<close> yields a visible
  modal with title "Done!" and description "Thanks for subscribing!"; this covers the
  freshly mounted controller and a controller that last showed the other key. In the
  remaining case, a hidden controller that already records the key, \<open>setType\<close> of
  that key changes nothing.
\<close>

theorem setType_valid_key_shows_entry:
  "(isShow (run ops) \<or> st_type (run ops) \<noteq> JStr EMAIL_CONFIRMATION \<longrightarrow>
      isShow (setType (JStr EMAIL_CONFIRMATION) (run ops))
      \<and> Modal (setType (JStr EMAIL_CONFIRMATION) (run ops))
          = Some (JStr ''Success!'',
                  JStr ''Now check your email to confirm your subscription''))
   \<and> (isShow (run ops) \<or> st_type (run ops) \<noteq> JStr CONFIRMATION_SUCCESS \<longrightarrow>
      isShow (setType (JStr CONFIRMATION_SUCCESS) (run ops))
      \<and> Modal (setType (JStr CONFIRMATION_SUCCESS) (run ops))
          = Some (JStr ''Done!'', JStr ''Thanks for subscribing!''))
   \<and> (\<not> isShow (run ops) \<and> st_type (run ops) = k \<longrightarrow>
      setType k (run ops) = run ops \<and> Modal (setType k (run ops)) = None)"
proof (intro conjI impI)
  have s: "settled (run ops)" by (rule settled_run)
  {
    assume a: "isShow (run ops) \<or> st_type (run ops) \<noteq> JStr EMAIL_CONFIRMATION"
    show "isShow (setType (JStr EMAIL_CONFIRMATION) (run ops))"
      using setType_shows [OF s lookup_EMAIL _ _ a] by simp
    show "Modal (setType (JStr EMAIL_CONFIRMATION) (run ops))
          = Some (JStr ''Success!'',
                  JStr ''Now check your email to confirm your subscription'')"
      using setType_shows [OF s lookup_EMAIL _ _ a] by simp
  }
  {
    assume a: "isShow (run ops) \<or> st_type (run ops) \<noteq> JStr CONFIRMATION_SUCCESS"
    show "isShow (setType (JStr CONFIRMATION_SUCCESS) (run ops))"
      using setType_shows [OF s lookup_CONFIRMATION _ _ a] by simp
    show "Modal (setType (JStr CONFIRMATION_SUCCESS) (run ops))
          = Some (JStr ''Done!'', JStr ''Thanks for subscribing!'')"
      using setType_shows [OF s lookup_CONFIRMATION _ _ a] by simp
  }
  {
    assume a: "\<not> isShow (run ops) \<and> st_type (run ops) = k"
    then have "(run ops)\<lparr>st_type := k\<rparr> = run ops" by auto
    then show e: "setType k (run ops) = run ops"
      using s by (simp add: setType_def settled_settle)
    show "Modal (setType k (run ops)) = None"
      using a by (simp add: e Modal_def)
  }
qed

theorem setType_valid_key_shows_entry_witness:
  "(isShow (run []) \<or> st_type (run []) \<noteq> JStr EMAIL_CONFIRMATION)
   \<and> isShow (setType (JStr EMAIL_CONFIRMATION) (run []))
   \<and> Modal (setType (JStr EMAIL_CONFIRMATION) (run []))
       = Some (JStr ''Success!'', JStr ''Now check your email to confirm your subscription'')
   \<and> (isShow (run [SetType (JStr EMAIL_CONFIRMATION), Hide])
       \<or> st_type (run [SetType (JStr EMAIL_CONFIRMATION), Hide]) \<noteq> JStr CONFIRMATION_SUCCESS)
   \<and> isShow (setType (JStr CONFIRMATION_SUCCESS) (run [SetType (JStr EMAIL_CONFIRMATION), Hide]))
   \<and> Modal (setType (JStr CONFIRMATION_SUCCESS) (run [SetType (JStr EMAIL_CONFIRMATION), Hide]))
       = Some (JStr ''Done!'', JStr ''Thanks for subscribing!'')
   \<and> \<not> isShow (run [SetType (JStr EMAIL_CONFIRMATION), Hide])
   \<and> st_type (run [SetType (JStr EMAIL_CONFIRMATION), Hide]) = JStr EMAIL_CONFIRMATION
   \<and> Modal (setType (JStr EMAIL_CONFIRMATION) (run [SetType (JStr EMAIL_CONFIRMATION), Hide]))
       = None"
proof -
  have a: "st_type (run []) \<noteq> JStr EMAIL_CONFIRMATION"
    by (simp add: run_def hook_defs)
  have b: "st_type (run [SetType (JStr EMAIL_CONFIRMATION), Hide]) \<noteq> JStr CONFIRMATION_SUCCESS"
    by (simp add: run_def hook_defs)
  have c: "\<not> isShow (run [SetType (JStr EMAIL_CONFIRMATION), Hide])"
    by (simp add: run_def hook_defs)
  have d: "st_type (run [SetType (JStr EMAIL_CONFIRMATION), Hide]) = JStr EMAIL_CONFIRMATION"
    by (simp add: run_def hook_defs)
  note t1 = setType_valid_key_shows_entry [of "[]" JNull]
  note t2 = setType_valid_key_shows_entry
    [of "[SetType (JStr EMAIL_CONFIRMATION), Hide]" "JStr EMAIL_CONFIRMATION"]
  from t1 a have w1: "isShow (setType (JStr EMAIL_CONFIRMATION) (run []))
     \<and> Modal (setType (JStr EMAIL_CONFIRMATION) (run []))
       = Some (JStr ''Success!'', JStr ''Now check your email to confirm your subscription'')"
    by blast
  from t2 b have w2:
    "isShow (setType (JStr CONFIRMATION_SUCCESS) (run [SetType (JStr EMAIL_CONFIRMATION), Hide]))
     \<and> Modal (setType (JStr CONFIRMATION_SUCCESS) (run [SetType (JStr EMAIL_CONFIRMATION), Hide]))
       = Some (JStr ''Done!'', JStr ''Thanks for subscribing!'')"
    by blast
  from t2 c d have w3:
    "Modal (setType (JStr EMAIL_CONFIRMATION) (run [SetType (JStr EMAIL_CONFIRMATION), Hide]))
       = None"
    by blast
  show ?thesis using a b c d w1 w2 w3 by blast
qed

text \<open>
  Claim C2. For every key other than the two of the table, \<open>setType\<close> on a hidden
  controller (in any state the operations can reach) leaves it hidden with no content:
  visibility stays false, \<open>info\<close> is \<open>undefined\<close> afterwards, and nothing is rendered.
  The model has no error value on this path because the source has no operation that can
  throw there: \<open>info?.title\<close> reads through \<open>undefined\<close>.
\<close>

theorem setType_unknown_key_stays_hidden:
  assumes "\<not> isShow (run ops)"
    and "k \<noteq> JStr EMAIL_CONFIRMATION" and "k \<noteq> JStr CONFIRMATION_SUCCESS"
  shows "\<not> isShow (setType k (run ops))
         \<and> st_info (setType k (run ops)) = InfoUndefined
         \<and> Modal (setType k (run ops)) = None"
  using assms
  by (simp add: setType_settled [OF settled_run] lookup_no_match Modal_def Let_def)

theorem setType_unknown_key_stays_hidden_witness:
  "\<not> isShow (run []) \<and> st_info (run []) = InfoUndefined
   \<and> JStr ''other'' \<noteq> JStr EMAIL_CONFIRMATION \<and> JStr ''other'' \<noteq> JStr CONFIRMATION_SUCCESS
   \<and> \<not> isShow (setType (JStr ''other'') (run []))
   \<and> st_info (setType (JStr ''other'') (run [])) = InfoUndefined
   \<and> Modal (setType (JStr ''other'') (run [])) = None"
proof -
  have h: "\<not> isShow (run [])" by (simp add: run_Nil hook_defs)
  have i: "st_info (run []) = InfoUndefined" by (simp add: run_Nil hook_defs)
  have a: "JStr ''other'' \<noteq> JStr EMAIL_CONFIRMATION" by (simp add: EMAIL_CONFIRMATION_def)
  have b: "JStr ''other'' \<noteq> JStr CONFIRMATION_SUCCESS" by (simp add: CONFIRMATION_SUCCESS_def)
  show ?thesis
    using setType_unknown_key_stays_hidden [OF h a b] h i a b by simp
qed

subsection \<open>Operations on a settled controller\<close>

lemma hide_settled: "settled s \<Longrightarrow> hide_portal s = s\<lparr>isShow := False\<rparr>"
  by (simp add: hide_portal_def settle_eq settled_def useModal_pass_def Let_def)

lemma setType_same: "settled s \<Longrightarrow> setType (st_type s) s = s"
  by (simp add: setType_def settled_settle)

lemma click_settled:
  assumes "settled s" and "isShow s"
  shows "click e s = fold (\<lambda>x. onClick x e) (bubble_path e) s"
proof -
  have "settled (fold (\<lambda>x. onClick x e) (bubble_path e) s)"
    using fold_onClick_cases [of e s] assms(1) by (auto simp: settled_def)
  then show ?thesis using assms(2) by (simp add: click_def settled_settle)
qed

lemma bubble_paths:
  "bubble_path Backdrop = [Backdrop]"
  "bubble_path Container = [Container, Backdrop]"
  "bubble_path Bar = [Bar, Container, Backdrop]"
  "bubble_path CloseButton = [CloseButton, Bar, Container, Backdrop]"
  "bubble_path CloseSpan = [CloseSpan, CloseButton, Bar, Container, Backdrop]"
  "bubble_path ContentContainer = [ContentContainer, Container, Backdrop]"
  "bubble_path Header = [Header, ContentContainer, Container, Backdrop]"
  "bubble_path Content = [Content, ContentContainer, Container, Backdrop]"
  "bubble_path OkButton = [OkButton, ContentContainer, Container, Backdrop]"
  by (simp_all add: bubble_path_def eval_nat_numeral)

text \<open>
  Claim C5. In every state that a sequence of operations reaches, \<open>info\<close> is consistent
  with \<open>type\<close>: the keys of the table are distinct; when \<open>type\<close> is the key of an item,
  \<open>info\<close> is that item; when \<open>type\<close> matches no item, \<open>info\<close> is \<open>undefined\<close>, and
  \<open>setType\<close> of a key that matches no item does not take a hidden controller to
  visible. The last conjunct lists every step from hidden to visible there is:
  \<open>show()\<close>, which forces visibility whatever the content, and \<open>setType\<close> of a key
  that matches.
\<close>

theorem info_consistent_with_type:
  "distinct (map type MODAL_DATA)
   \<and> (\<forall>item \<in> set MODAL_DATA.
        st_type (run ops) = JStr (type item) \<longrightarrow> st_info (run ops) = InfoItem item)
   \<and> (\<not> matches (st_type (run ops)) \<longrightarrow> st_info (run ops) = InfoUndefined)
   \<and> (\<not> matches k \<and> \<not> isShow (run ops) \<longrightarrow> \<not> isShow (run (ops @ [SetType k])))
   \<and> (\<not> isShow (run ops) \<and> isShow (run (ops @ [a])) \<longrightarrow>
        a = Show \<or> (\<exists>k'. a = SetType k' \<and> matches k'))"
proof (intro conjI)
  have s: "settled (run ops)" by (rule settled_run)
  have unmatched: "\<not> isShow (run ops) \<Longrightarrow> \<not> isShow (run (ops @ [SetType j]))"
    if "\<not> matches j" for j
  proof -
    from that have "filter (\<lambda>item. JStr (type item) = j) MODAL_DATA = []"
      by (simp add: matches_iff lookup_no_match)
    then show "\<not> isShow (run ops) \<Longrightarrow> \<not> isShow (run (ops @ [SetType j]))"
      using s by (simp add: run_snoc setType_settled Let_def)
  qed
  show "distinct (map type MODAL_DATA)"
    by (simp add: MODAL_DATA_def EMAIL_CONFIRMATION_def CONFIRMATION_SUCCESS_def)
  show "\<forall>item \<in> set MODAL_DATA.
      st_type (run ops) = JStr (type item) \<longrightarrow> st_info (run ops) = InfoItem item"
    using s
    by (auto simp: settled_def MODAL_DATA_def EMAIL_CONFIRMATION_def CONFIRMATION_SUCCESS_def)
  show "\<not> matches (st_type (run ops)) \<longrightarrow> st_info (run ops) = InfoUndefined"
    using s by (auto simp: settled_def matches_iff lookup_no_match)
  show "\<not> matches k \<and> \<not> isShow (run ops) \<longrightarrow> \<not> isShow (run (ops @ [SetType k]))"
    using unmatched [of k] by blast
  show "\<not> isShow (run ops) \<and> isShow (run (ops @ [a])) \<longrightarrow>
        a = Show \<or> (\<exists>k'. a = SetType k' \<and> matches k')"
  proof (cases a)
    case (SetType j)
    then show ?thesis using unmatched [of j] by auto
  next
    case Show
    then show ?thesis by simp
  next
    case Hide
    then show ?thesis using s by (simp add: run_snoc hide_settled)
  next
    case (Click e)
    then show ?thesis by (simp add: run_snoc click_def)
  qed
qed

theorem info_consistent_with_type_witness:
  "MODAL_DATA ! 0 \<in> set MODAL_DATA
   \<and> st_type (run [SetType (JStr EMAIL_CONFIRMATION)]) = JStr (type (MODAL_DATA ! 0))
   \<and> st_info (run [SetType (JStr EMAIL_CONFIRMATION)]) = InfoItem (MODAL_DATA ! 0)
   \<and> \<not> matches (st_type (run [SetType (JStr ''other'')]))
   \<and> st_info (run [SetType (JStr ''other'')]) = InfoUndefined
   \<and> \<not> matches (JStr ''other'') \<and> \<not> isShow (run [])
   \<and> \<not> isShow (run ([] @ [SetType (JStr ''other'')]))
   \<and> isShow (run ([] @ [SetType (JStr EMAIL_CONFIRMATION)]))
   \<and> matches (JStr EMAIL_CONFIRMATION)"
  using info_consistent_with_type [of "[SetType (JStr EMAIL_CONFIRMATION)]" JNull Show]
    info_consistent_with_type [of "[SetType (JStr ''other'')]" JNull Show]
    info_consistent_with_type [of "[]" "JStr ''other''" "SetType (JStr EMAIL_CONFIRMATION)"]
  by (simp add: run_def hook_defs matches_iff)

text \<open>
  Claim C6, as stated, fails on the dialog's own buttons: the OK button lies inside the
  dialog container, and a click on it hides the modal.
\<close>

theorem click_inside_container_counterexample:
  "inside_container OkButton
   \<and> isShow (run [SetType (JStr EMAIL_CONFIRMATION)])
   \<and> \<not> isShow (click OkButton (run [SetType (JStr EMAIL_CONFIRMATION)]))"
  by (simp add: inside_container_def bubble_paths run_def click_def hook_defs
      handleClickBackdrop_def)

text \<open>
  Claim C6, amended. While the modal is visible, a click whose target is the backdrop
  itself hides it, and a click whose target is the dialog container or an element inside
  it, other than the close button, the cross inside the close button and the OK button,
  changes nothing.
\<close>

theorem backdrop_click_hides_inner_click_does_not:
  assumes "isShow (run ops)"
  shows "\<not> isShow (click Backdrop (run ops))
     \<and> (inside_container e \<and> e \<notin> {CloseButton, CloseSpan, OkButton}
          \<longrightarrow> click e (run ops) = run ops)"
  using assms
  by (cases e)
    (simp_all add: click_settled [OF settled_run] bubble_paths handleClickBackdrop_def
      inside_container_def)

theorem backdrop_click_hides_inner_click_does_not_witness:
  "isShow (run [SetType (JStr EMAIL_CONFIRMATION)])
   \<and> inside_container Header \<and> Header \<notin> {CloseButton, CloseSpan, OkButton}
   \<and> \<not> isShow (click Backdrop (run [SetType (JStr EMAIL_CONFIRMATION)]))
   \<and> click Header (run [SetType (JStr EMAIL_CONFIRMATION)])
       = run [SetType (JStr EMAIL_CONFIRMATION)]"
proof -
  have v: "isShow (run [SetType (JStr EMAIL_CONFIRMATION)])"
    by (simp add: run_def hook_defs)
  have i: "inside_container Header" by (simp add: inside_container_def bubble_paths)
  show ?thesis
    using backdrop_click_hides_inner_click_does_not [OF v, of Header] v i by simp
qed

text \<open>
  Claim C7. While the modal is visible, a click on the close button (on the button or on
  the cross inside it) or on the OK button hides it.
\<close>

theorem buttons_hide:
  assumes "isShow (run ops)"
  shows "\<not> isShow (click CloseButton (run ops))
       \<and> \<not> isShow (click CloseSpan (run ops))
       \<and> \<not> isShow (click OkButton (run ops))"
  using assms
  by (simp add: click_settled [OF settled_run] bubble_paths handleClickBackdrop_def)

theorem buttons_hide_witness:
  "isShow (run [SetType (JStr EMAIL_CONFIRMATION)])
   \<and> \<not> isShow (click CloseButton (run [SetType (JStr EMAIL_CONFIRMATION)]))
   \<and> \<not> isShow (click CloseSpan (run [SetType (JStr EMAIL_CONFIRMATION)]))
   \<and> \<not> isShow (click OkButton (run [SetType (JStr EMAIL_CONFIRMATION)]))"
proof -
  have v: "isShow (run [SetType (JStr EMAIL_CONFIRMATION)])"
    by (simp add: run_def hook_defs)
  show ?thesis using buttons_hide [OF v] v by simp
qed

text \<open>
  Claim C9. For a key of the table: once \<open>setType(k)\<close> has made the modal visible and
  \<open>hide()\<close> has dismissed it, \<open>setType(k)\<close> with the same key leaves it hidden and
  nothing is rendered. \<open>type\<close> already holds \<open>k\<close>, so neither effect runs.
\<close>

theorem setType_same_key_after_hide:
  assumes "matches k" and "isShow (run (ops @ [SetType k]))"
  shows "\<not> isShow (run (ops @ [SetType k, Hide]))
         \<and> \<not> isShow (run (ops @ [SetType k, Hide, SetType k]))
         \<and> Modal (run (ops @ [SetType k, Hide, SetType k])) = None"
proof -
  let ?s = "run (ops @ [SetType k])"
  have s: "settled ?s" by (rule settled_run)
  have k: "st_type ?s = k"
    by (simp add: run_snoc setType_settled [OF settled_run] Let_def)
  have h: "run (ops @ [SetType k, Hide]) = ?s\<lparr>isShow := False\<rparr>"
    using run_snoc [of "ops @ [SetType k]" Hide] by (simp add: hide_settled [OF s])
  have sh: "settled (run (ops @ [SetType k, Hide]))" by (rule settled_run)
  have "run (ops @ [SetType k, Hide, SetType k]) = setType k (?s\<lparr>isShow := False\<rparr>)"
    using run_snoc [of "ops @ [SetType k, Hide]" "SetType k"] h by simp
  also have "\<dots> = ?s\<lparr>isShow := False\<rparr>"
    using setType_same [OF sh [unfolded h]] k by simp
  finally show ?thesis using h by (simp add: Modal_def)
qed

theorem setType_same_key_after_hide_witness:
  "matches (JStr EMAIL_CONFIRMATION)
   \<and> isShow (run ([] @ [SetType (JStr EMAIL_CONFIRMATION)]))
   \<and> \<not> isShow (run ([] @ [SetType (JStr EMAIL_CONFIRMATION), Hide]))
   \<and> \<not> isShow
        (run ([] @ [SetType (JStr EMAIL_CONFIRMATION), Hide, SetType (JStr EMAIL_CONFIRMATION)]))"
proof -
  have m: "matches (JStr EMAIL_CONFIRMATION)" by (simp add: matches_iff)
  have v: "isShow (run ([] @ [SetType (JStr EMAIL_CONFIRMATION)]))"
    by (simp add: run_def hook_defs)
  show ?thesis using setType_same_key_after_hide [OF m v] m v by simp
qed

text \<open>
  Claim C10. When the modal is visible and shows an item of the table, \<open>setType\<close> of a
  key that matches no item keeps it visible, and the rendered title and description are
  both \<open>undefined\<close>.
\<close>

theorem setType_unknown_key_while_visible:
  assumes "isShow (run ops)" and "st_info (run ops) = InfoItem item" and "\<not> matches k"
  shows "isShow (setType k (run ops))
         \<and> Modal (setType k (run ops)) = Some (JUndefined, JUndefined)"
proof -
  from assms(3) have "filter (\<lambda>item. JStr (type item) = k) MODAL_DATA = []"
    by (simp add: matches_iff lookup_no_match)
  then show ?thesis
    using assms(1) by (simp add: setType_settled [OF settled_run] Modal_def Let_def)
qed

theorem setType_unknown_key_while_visible_witness:
  "isShow (run [SetType (JStr CONFIRMATION_SUCCESS)])
   \<and> st_info (run [SetType (JStr CONFIRMATION_SUCCESS)]) = InfoItem (MODAL_DATA ! 1)
   \<and> Modal (run [SetType (JStr CONFIRMATION_SUCCESS)])
       = Some (JStr ''Done!'', JStr ''Thanks for subscribing!'')
   \<and> \<not> matches (JStr ''unknown'')
   \<and> isShow (setType (JStr ''unknown'') (run [SetType (JStr CONFIRMATION_SUCCESS)]))
   \<and> Modal (setType (JStr ''unknown'') (run [SetType (JStr CONFIRMATION_SUCCESS)]))
       = Some (JUndefined, JUndefined)"
proof -
  have v: "isShow (run [SetType (JStr CONFIRMATION_SUCCESS)])"
    by (simp add: run_def hook_defs)
  have i: "st_info (run [SetType (JStr CONFIRMATION_SUCCESS)]) = InfoItem (MODAL_DATA ! 1)"
    by (simp add: run_def hook_defs)
  have d: "Modal (run [SetType (JStr CONFIRMATION_SUCCESS)])
       = Some (JStr ''Done!'', JStr ''Thanks for subscribing!'')"
    by (simp add: run_def hook_defs Modal_def)
  have m: "\<not> matches (JStr ''unknown'')"
    by (simp add: matches_iff EMAIL_CONFIRMATION_def CONFIRMATION_SUCCESS_def)
  show ?thesis using setType_unknown_key_while_visible [OF v i m] v i d m by simp
qed

section \<open>Properties of the page shell\<close>

lemma Layout_renders_0: "Layout_renders 0 loc L = L"
  by (simp add: Layout_renders_def)

lemma Layout_renders_Suc:
  "Layout_renders (Suc n) loc L = Layout_pass loc (Layout_renders n loc L)"
  by (simp add: Layout_renders_def)


text \<open>The first render at a location with a marker runs the effect of the shell.\<close>

lemma Layout_pass_first:
  assumes "m \<in> set QUERIES" and "qs_parse_source (search loc) = JStr m"
  shows "Layout_pass loc Layout_init =
     \<lparr>hook = (useModal_pass useModal_init)\<lparr>st_type := JStr m\<rparr>,
      deps_source = Some (JStr m),
      calls = [CallSetType (JStr m), CallNavigate ''/'' None]\<rparr>"
  using assms
  by (auto simp: Layout_pass_def Layout_init_def source_changed_def Let_def list_ex_iff)

text \<open>A render that observes the recorded source again runs only the hook's effects.\<close>

lemma Layout_pass_again:
  assumes "deps_source L = Some (JStr m)" and "qs_parse_source (search loc) = JStr m"
  shows "Layout_pass loc L = L\<lparr>hook := useModal_pass (hook L)\<rparr>"
  using assms
  by (simp add: Layout_pass_def source_changed_def Let_def)

lemma Layout_renders_marker:
  assumes "m \<in> set QUERIES" and "qs_parse_source (search loc) = JStr m"
  shows "Layout_renders (Suc n) loc Layout_init =
     \<lparr>hook = (useModal_pass ^^ n) ((useModal_pass useModal_init)\<lparr>st_type := JStr m\<rparr>),
      deps_source = Some (JStr m),
      calls = [CallSetType (JStr m), CallNavigate ''/'' None]\<rparr>"
proof (induction n)
  case 0
  show ?case
    using Layout_pass_first [OF assms] by (simp add: Layout_renders_Suc Layout_renders_0)
next
  case (Suc n)
  show ?case
    by (subst Layout_renders_Suc) (simp add: Suc Layout_pass_again [OF _ assms(2)])
qed

lemma useModal_pass_funpow: "(useModal_pass ^^ (2 + n)) s = (useModal_pass ^^ 2) s"
  by (induction n) (simp_all add: useModal_pass_thrice eval_nat_numeral)

lemma Layout_renders_marker_stable:
  assumes "m \<in> set QUERIES" and "qs_parse_source (search loc) = JStr m"
  shows "Layout_renders (3 + n) loc Layout_init = Layout_renders 3 loc Layout_init"
proof -
  note r = Layout_renders_marker [OF assms]
  have "Layout_renders (Suc (2 + n)) loc Layout_init = Layout_renders (Suc 2) loc Layout_init"
    unfolding r by (simp only: useModal_pass_funpow)
  then show ?thesis by (simp add: eval_nat_numeral)
qed

lemma Layout_renders_marker_shown:
  assumes "m \<in> set QUERIES" and "qs_parse_source (search loc) = JStr m"
  shows "isShow (hook (Layout_renders 3 loc Layout_init))
       \<and> st_type (hook (Layout_renders 3 loc Layout_init)) = JStr m"
proof -
  have "Layout_renders 3 loc Layout_init = Layout_renders (Suc 2) loc Layout_init"
    by (simp add: eval_nat_numeral)
  with assms show ?thesis
    unfolding Layout_renders_marker [OF assms]
    by (auto simp: QUERIES_def eval_nat_numeral hook_defs)
qed

text \<open>A render at a location without a marker runs only the hook's effects.\<close>

lemma Layout_pass_no_marker:
  assumes "\<not> list_ex (\<lambda>query. JStr query = qs_parse_source (search loc)) QUERIES"
  shows "Layout_pass loc L =
     L\<lparr>hook := useModal_pass (hook L), deps_source := Some (qs_parse_source (search loc))\<rparr>"
  using assms by (simp add: Layout_pass_def Let_def)

lemma Layout_renders_no_marker:
  assumes "\<not> list_ex (\<lambda>query. JStr query = qs_parse_source (search loc)) QUERIES"
  shows "calls (Layout_renders n loc L) = calls L
       \<and> hook (Layout_renders n loc L) = (useModal_pass ^^ n) (hook L)"
  by (induction n)
    (simp_all add: Layout_renders_0 Layout_renders_Suc Layout_pass_no_marker [OF assms])

lemma useModal_pass_keeps_type: "st_type ((useModal_pass ^^ n) s) = st_type s"
  by (induction n) (simp_all add: useModal_pass_def Let_def)

lemma useModal_pass_hidden_init:
  "\<not> isShow ((useModal_pass ^^ n) useModal_init)
   \<and> st_type ((useModal_pass ^^ n) useModal_init) = JNull
   \<and> (st_info ((useModal_pass ^^ n) useModal_init) = InfoEmpty
      \<or> st_info ((useModal_pass ^^ n) useModal_init) = InfoUndefined)"
  by (induction n) (auto simp: useModal_pass_def useModal_init_def Let_def MODAL_DATA_def)

lemma Layout_renders_shift:
  "Layout_renders (Suc n) loc L = Layout_renders n loc (Layout_pass loc L)"
  by (simp add: Layout_renders_def funpow_swap1)

lemma Layout_renders_again:
  assumes "deps_source L = Some (JStr m)" and "qs_parse_source (search loc) = JStr m"
  shows "Layout_renders n loc L = L\<lparr>hook := (useModal_pass ^^ n) (hook L)\<rparr>"
proof (induction n)
  case 0
  show ?case by (simp add: Layout_renders_0)
next
  case (Suc n)
  have "deps_source (L\<lparr>hook := (useModal_pass ^^ n) (hook L)\<rparr>) = Some (JStr m)"
    using assms(1) by simp
  from Layout_pass_again [OF this assms(2)] show ?case
    by (simp add: Layout_renders_Suc Suc)
qed

text \<open>A render that observes a marker other than the recorded source runs the effect.\<close>

lemma Layout_pass_change:
  assumes "m \<in> set QUERIES" and "qs_parse_source (search loc) = JStr m"
    and "deps_source L \<noteq> Some (JStr m)"
  shows "Layout_pass loc L =
     \<lparr>hook = (useModal_pass (hook L))\<lparr>st_type := JStr m\<rparr>,
      deps_source = Some (JStr m),
      calls = calls L @ [CallSetType (JStr m), CallNavigate ''/'' None]\<rparr>"
  using assms
  by (auto simp: Layout_pass_def source_changed_def Let_def list_ex_iff)

lemma Layout_renders_change:
  assumes "m \<in> set QUERIES" and "qs_parse_source (search loc) = JStr m"
    and "deps_source L \<noteq> Some (JStr m)"
  shows "calls (Layout_renders (Suc n) loc L)
           = calls L @ [CallSetType (JStr m), CallNavigate ''/'' None]
       \<and> st_type (hook (Layout_renders (Suc n) loc L)) = JStr m"
proof -
  let ?L = "Layout_pass loc L"
  have d: "deps_source ?L = Some (JStr m)"
    by (simp add: Layout_pass_change [OF assms])
  show ?thesis
    unfolding Layout_renders_shift Layout_renders_again [OF d assms(2)]
    by (simp add: Layout_pass_change [OF assms] useModal_pass_keeps_type)
qed

lemma eval_marker_3:
  "Layout_renders 3 \<lparr>pathname = ''/'', search = [(''source'', ''email-confirmation'')]\<rparr>
     Layout_init
   = \<lparr>hook = \<lparr>isShow = True, st_type = JStr ''email-confirmation'',
        st_info = InfoItem (MODAL_DATA ! 0),
        deps_type = Some (JStr ''email-confirmation''),
        deps_info = Some (InfoItem (MODAL_DATA ! 0))\<rparr>,
      deps_source = Some (JStr ''email-confirmation''),
      calls = [CallSetType (JStr ''email-confirmation''), CallNavigate ''/'' None]\<rparr>"
  by (simp add: Layout_renders_def Layout_pass_def Layout_init_def
      qs_parse_source_def source_changed_def QUERIES_def eval_nat_numeral hook_defs)

text \<open>
  Claim C4, as stated, fails when the observed marker goes away and comes back in one
  mounted shell (the marker URL, then the root, then the marker URL again, as after the
  Back button): the single marker value "email-confirmation" makes the shell call
  \<open>setType("email-confirmation")\<close> twice.
\<close>

theorem marker_away_and_back_counterexample:
  "calls
     (Layout_renders 1 \<lparr>pathname = ''/'', search = [(''source'', ''email-confirmation'')]\<rparr>
       (Layout_renders 1 \<lparr>pathname = ''/'', search = []\<rparr>
         (Layout_renders 3
            \<lparr>pathname = ''/'', search = [(''source'', ''email-confirmation'')]\<rparr>
            Layout_init)))
    = [CallSetType (JStr EMAIL_CONFIRMATION), CallNavigate ''/'' None,
       CallSetType (JStr EMAIL_CONFIRMATION), CallNavigate ''/'' None]"
  by (simp add: eval_marker_3)
    (simp add: Layout_renders_def Layout_pass_def
      qs_parse_source_def source_changed_def QUERIES_def hook_defs)

text \<open>
  Claim C4, amended. The reaction is gated on a change of the observed \<open>source\<close>
  against the one recorded when the effect last ran, not on the set of values seen so
  far. At a location whose \<open>source\<close> is a marker: a freshly mounted shell calls
  \<open>setType\<close> with the marker and \<open>navigate("/")\<close> exactly once, however many renders
  follow, the third render has made the modal visible and later renders change nothing;
  a shell whose recorded source is this marker makes no call and keeps \<open>type\<close> over
  any number of renders; and a shell whose recorded source is anything else makes exactly
  these two calls once, at the first of any number of renders, and records the marker as
  \<open>type\<close>.
\<close>

theorem marker_consumed_on_change:
  assumes "m \<in> set QUERIES" and "qs_parse_source (search loc) = JStr m"
  shows "calls (Layout_renders (Suc n) loc Layout_init)
           = [CallSetType (JStr m), CallNavigate ''/'' None]
       \<and> isShow (hook (Layout_renders 3 loc Layout_init))
       \<and> Layout_renders (3 + n) loc Layout_init = Layout_renders 3 loc Layout_init
       \<and> (deps_source L = Some (JStr m) \<longrightarrow>
            calls (Layout_renders n loc L) = calls L
            \<and> st_type (hook (Layout_renders n loc L)) = st_type (hook L))
       \<and> (deps_source L \<noteq> Some (JStr m) \<longrightarrow>
            calls (Layout_renders (Suc n) loc L)
              = calls L @ [CallSetType (JStr m), CallNavigate ''/'' None]
            \<and> st_type (hook (Layout_renders (Suc n) loc L)) = JStr m)"
proof (intro conjI impI)
  show "calls (Layout_renders (Suc n) loc Layout_init)
           = [CallSetType (JStr m), CallNavigate ''/'' None]"
    by (simp add: Layout_renders_marker [OF assms])
  show "isShow (hook (Layout_renders 3 loc Layout_init))"
    using Layout_renders_marker_shown [OF assms] by simp
  show "Layout_renders (3 + n) loc Layout_init = Layout_renders 3 loc Layout_init"
    by (rule Layout_renders_marker_stable [OF assms])
  {
    assume d: "deps_source L = Some (JStr m)"
    show "calls (Layout_renders n loc L) = calls L"
      by (simp add: Layout_renders_again [OF d assms(2)])
    show "st_type (hook (Layout_renders n loc L)) = st_type (hook L)"
      by (simp add: Layout_renders_again [OF d assms(2)] useModal_pass_keeps_type)
  }
  {
    assume d: "deps_source L \<noteq> Some (JStr m)"
    show "calls (Layout_renders (Suc n) loc L)
              = calls L @ [CallSetType (JStr m), CallNavigate ''/'' None]"
      using Layout_renders_change [OF assms d] by simp
    show "st_type (hook (Layout_renders (Suc n) loc L)) = JStr m"
      using Layout_renders_change [OF assms d] by simp
  }
qed

theorem marker_consumed_on_change_witness:
  "EMAIL_CONFIRMATION \<in> set QUERIES
   \<and> qs_parse_source
        (search \<lparr>pathname = ''/'', search = [(''source'', ''email-confirmation'')]\<rparr>)
       = JStr EMAIL_CONFIRMATION
   \<and> calls (Layout_renders (Suc 4)
        \<lparr>pathname = ''/'', search = [(''source'', ''email-confirmation'')]\<rparr> Layout_init)
       = [CallSetType (JStr EMAIL_CONFIRMATION), CallNavigate ''/'' None]
   \<and> deps_source (Layout_renders 3
        \<lparr>pathname = ''/'', search = [(''source'', ''email-confirmation'')]\<rparr> Layout_init)
       = Some (JStr EMAIL_CONFIRMATION)
   \<and> calls (Layout_renders 4
        \<lparr>pathname = ''/'', search = [(''source'', ''email-confirmation'')]\<rparr>
        (Layout_renders 3
          \<lparr>pathname = ''/'', search = [(''source'', ''email-confirmation'')]\<rparr> Layout_init))
       = calls (Layout_renders 3
          \<lparr>pathname = ''/'', search = [(''source'', ''email-confirmation'')]\<rparr> Layout_init)
   \<and> deps_source (Layout_renders 1 \<lparr>pathname = ''/'', search = []\<rparr>
        (Layout_renders 3
          \<lparr>pathname = ''/'', search = [(''source'', ''email-confirmation'')]\<rparr> Layout_init))
       \<noteq> Some (JStr EMAIL_CONFIRMATION)
   \<and> calls (Layout_renders (Suc 4)
        \<lparr>pathname = ''/'', search = [(''source'', ''email-confirmation'')]\<rparr>
        (Layout_renders 1 \<lparr>pathname = ''/'', search = []\<rparr>
          (Layout_renders 3
            \<lparr>pathname = ''/'', search = [(''source'', ''email-confirmation'')]\<rparr>
            Layout_init)))
       = calls (Layout_renders 1 \<lparr>pathname = ''/'', search = []\<rparr>
          (Layout_renders 3
            \<lparr>pathname = ''/'', search = [(''source'', ''email-confirmation'')]\<rparr>
            Layout_init))
         @ [CallSetType (JStr EMAIL_CONFIRMATION), CallNavigate ''/'' None]"
proof -
  let ?loc = "\<lparr>pathname = ''/'', search = [(''source'', ''email-confirmation'')]\<rparr>"
  let ?root = "\<lparr>pathname = ''/'', search = []\<rparr>"
  let ?L3 = "Layout_renders 3 ?loc Layout_init"
  let ?L4 = "Layout_renders 1 ?root ?L3"
  have q: "EMAIL_CONFIRMATION \<in> set QUERIES" by (simp add: QUERIES_def)
  have s: "qs_parse_source (search ?loc) = JStr EMAIL_CONFIRMATION"
    by (simp add: qs_parse_source_def EMAIL_CONFIRMATION_def)
  have d3: "deps_source ?L3 = Some (JStr EMAIL_CONFIRMATION)"
    by (simp add: eval_marker_3 EMAIL_CONFIRMATION_def)
  have d4: "deps_source ?L4 \<noteq> Some (JStr EMAIL_CONFIRMATION)"
    by (simp add: Layout_renders_def Layout_pass_def qs_parse_source_def Let_def)
  note t3 = marker_consumed_on_change [OF q s, of 4 ?L3]
  note t4 = marker_consumed_on_change [OF q s, of 4 ?L4]
  from t3 have w1: "calls (Layout_renders (Suc 4) ?loc Layout_init)
       = [CallSetType (JStr EMAIL_CONFIRMATION), CallNavigate ''/'' None]"
    by blast
  from t3 d3 have w2: "calls (Layout_renders 4 ?loc ?L3) = calls ?L3"
    by blast
  from t4 d4 have w3: "calls (Layout_renders (Suc 4) ?loc ?L4)
       = calls ?L4 @ [CallSetType (JStr EMAIL_CONFIRMATION), CallNavigate ''/'' None]"
    by blast
  show ?thesis using q s d3 d4 w1 w2 w3 by blast
qed



text \<open>
  Claim C3, as stated, fails: \<open>navigate("/")\<close> is called without options, so the
  root path is pushed on top of the entry that carries the marker, which stays in the
  history. Replacing the entry would have left the root path alone.
\<close>

theorem navigate_replaces_counterexample:
  "history_after
     (Layout_renders 3
        \<lparr>pathname = ''/'', search = [(''source'', ''email-confirmation'')]\<rparr> Layout_init)
     [\<lparr>pathname = ''/'', search = [(''source'', ''email-confirmation'')]\<rparr>]
    = [\<lparr>pathname = ''/'', search = []\<rparr>,
       \<lparr>pathname = ''/'', search = [(''source'', ''email-confirmation'')]\<rparr>]
   \<and> history_after
     (Layout_renders 3
        \<lparr>pathname = ''/'', search = [(''source'', ''email-confirmation'')]\<rparr> Layout_init)
     [\<lparr>pathname = ''/'', search = [(''source'', ''email-confirmation'')]\<rparr>]
    \<noteq> navigate ''/'' (Some \<lparr>replace = True\<rparr>)
       [\<lparr>pathname = ''/'', search = [(''source'', ''email-confirmation'')]\<rparr>]"
  by (simp add: history_after_def Layout_renders_def Layout_pass_def Layout_init_def
      qs_parse_source_def source_changed_def QUERIES_def navigate_def eval_nat_numeral
      hook_defs)

text \<open>
  Claim C3, amended. When the shell consumes a recognised marker from the query string,
  it calls \<open>navigate("/")\<close> without the \<open>replace\<close> option: the marker-free root path
  becomes a new entry on top of the entry with the marker. The current entry is then the
  site root with no query string, its \<open>source\<close> is \<open>undefined\<close>, and a shell mounted
  afresh at it (a page reload) makes no call and leaves the modal hidden.
\<close>

theorem marker_navigation_pushes_root:
  assumes "m \<in> set QUERIES" and "qs_parse_source (search loc) = JStr m"
  shows "history_after (Layout_renders (Suc n) loc Layout_init) (loc # hist)
           = \<lparr>pathname = ''/'', search = []\<rparr> # loc # hist
       \<and> qs_parse_source
            (search (hd (history_after (Layout_renders (Suc n) loc Layout_init) (loc # hist))))
           = JUndefined
       \<and> calls (Layout_renders k
            (hd (history_after (Layout_renders (Suc n) loc Layout_init) (loc # hist)))
            Layout_init) = []
       \<and> \<not> isShow (hook (Layout_renders k
            (hd (history_after (Layout_renders (Suc n) loc Layout_init) (loc # hist)))
            Layout_init))"
proof -
  let ?root = "\<lparr>pathname = ''/'', search = []\<rparr>"
  have h: "history_after (Layout_renders (Suc n) loc Layout_init) (loc # hist)
           = ?root # loc # hist"
    by (simp add: Layout_renders_marker [OF assms] history_after_def navigate_def)
  have u: "qs_parse_source [] = JUndefined"
    by (simp add: qs_parse_source_def)
  have nq: "\<not> list_ex (\<lambda>query. JStr query = qs_parse_source (search ?root)) QUERIES"
    by (simp add: u list_ex_iff)
  note r = Layout_renders_no_marker [OF nq, of k Layout_init]
  have c: "calls (Layout_renders k ?root Layout_init) = []"
    using r by (simp add: Layout_init_def)
  have "hook (Layout_renders k ?root Layout_init) = (useModal_pass ^^ k) useModal_init"
    using r by (simp add: Layout_init_def)
  then have v: "\<not> isShow (hook (Layout_renders k ?root Layout_init))"
    using useModal_pass_hidden_init [of k] by simp
  show ?thesis unfolding h using u c v by simp
qed

theorem marker_navigation_pushes_root_witness:
  "CONFIRMATION_SUCCESS \<in> set QUERIES
   \<and> qs_parse_source
        (search \<lparr>pathname = ''/'', search = [(''source'', ''confirmation-success'')]\<rparr>)
       = JStr CONFIRMATION_SUCCESS
   \<and> history_after
        (Layout_renders (Suc 2)
           \<lparr>pathname = ''/'', search = [(''source'', ''confirmation-success'')]\<rparr> Layout_init)
        (\<lparr>pathname = ''/'', search = [(''source'', ''confirmation-success'')]\<rparr> # [])
       = [\<lparr>pathname = ''/'', search = []\<rparr>,
          \<lparr>pathname = ''/'', search = [(''source'', ''confirmation-success'')]\<rparr>]"
proof -
  let ?loc = "\<lparr>pathname = ''/'', search = [(''source'', ''confirmation-success'')]\<rparr>"
  have q: "CONFIRMATION_SUCCESS \<in> set QUERIES" by (simp add: QUERIES_def)
  have s: "qs_parse_source (search ?loc) = JStr CONFIRMATION_SUCCESS"
    by (simp add: qs_parse_source_def CONFIRMATION_SUCCESS_def)
  show ?thesis using marker_navigation_pushes_root [OF q s, of 2 "[]" 0] q s by simp
qed

end
